theory Spec2Isabelle
  imports Main "HOL-Library.AList" "HOL-Library.Product_Lexorder"
begin

section \<open>Python values\<close>

subsection \<open>Strings\<close>

text \<open>
  A Python \<open>str\<close> is a sequence of Unicode code points, so \<open>len\<close> is the length of
  the list. Literals of the source are written with \<open>ascii\<close> for their ASCII part and
  with the code point itself elsewhere (U+00E3, U+00ED, U+00B5, U+2014).
\<close>

type_synonym pystr = "nat list"

definition ascii :: "string \<Rightarrow> pystr" where
  "ascii s = map of_char s"

definition nao_encontrado :: pystr where
  "nao_encontrado = ascii ''Produto n'' @ [0xE3] @ ascii ''o encontrado''"

definition travessao :: pystr where
  "travessao = [0x2014]"

definition inicio :: pystr where
  "inicio = ascii ''in'' @ [0xED] @ ascii ''cio''"

text \<open>\<open>a in b\<close> on two strings: \<open>a\<close> occurs in \<open>b\<close> as a contiguous piece.\<close>

fun starts_with :: "pystr \<Rightarrow> pystr \<Rightarrow> bool" where
  "starts_with [] s = True"
| "starts_with (a # as) [] = False"
| "starts_with (a # as) (c # cs) = (a = c \<and> starts_with as cs)"

fun str_in :: "pystr \<Rightarrow> pystr \<Rightarrow> bool" where
  "str_in a [] = (a = [])"
| "str_in a (c # cs) = (starts_with a (c # cs) \<or> str_in a cs)"

text \<open>\<open>s.replace(a, b)\<close> for one-character \<open>a\<close> and \<open>b\<close>, the only use in the source.\<close>

definition replace_chr :: "nat \<Rightarrow> nat \<Rightarrow> pystr \<Rightarrow> pystr" where
  "replace_chr a b s = map (\<lambda>c. if c = a then b else c) s"

text \<open>\<open>s.split(sep)\<close> for a one-character separator: empty pieces are kept.\<close>

fun split_chr :: "nat \<Rightarrow> pystr \<Rightarrow> pystr list" where
  "split_chr sep [] = [[]]"
| "split_chr sep (c # cs) =
     (if c = sep then [] # split_chr sep cs
      else (case split_chr sep cs of [] \<Rightarrow> [[c]] | p # ps \<Rightarrow> (c # p) # ps))"

text \<open>\<open>s.strip(chars)\<close> with the set of characters to remove given as a predicate.\<close>

definition strip_by :: "(nat \<Rightarrow> bool) \<Rightarrow> pystr \<Rightarrow> pystr" where
  "strip_by P s = rev (dropWhile P (rev (dropWhile P s)))"

text \<open>\<open>sep.join(parts)\<close>.\<close>

fun join :: "pystr \<Rightarrow> pystr list \<Rightarrow> pystr" where
  "join sep [] = []"
| "join sep [p] = p"
| "join sep (p # q # ps) = p @ sep @ join sep (q # ps)"

text \<open>Decimal digits of a natural number, as \<open>str(n)\<close> prints them.\<close>

fun dec :: "nat \<Rightarrow> pystr" where
  "dec n = (if n < 10 then [48 + n] else dec (n div 10) @ [48 + n mod 10])"

declare dec.simps [simp del]

subsection \<open>Floats\<close>

text \<open>
  A Python \<open>float\<close> is an IEEE double: \<open>Fin s m e\<close> is the finite value
  \<open>(-1)^s * m * 2^e\<close> (sign bit, mantissa, exponent), so every finite double is
  represented exactly, the two zeros included.
\<close>

datatype pyfloat = Fin bool nat int | Inf bool | NaN

definition float_zero :: pyfloat where
  "float_zero = Fin False 0 0"

fun float_is_zero :: "pyfloat \<Rightarrow> bool" where
  "float_is_zero (Fin s m e) = (m = 0)"
| "float_is_zero (Inf s) = False"
| "float_is_zero NaN = False"

subsection \<open>Decoded JSON\<close>

text \<open>
  What \<open>requests.get(...).json()\<close> returns: any JSON value. An object is kept as the
  list of its items in insertion order.
\<close>

datatype json =
    JNull
  | JBool bool
  | JInt int
  | JFloat pyfloat
  | JStr pystr
  | JList "json list"
  | JObj "(pystr \<times> json) list"

type_synonym dict = "(pystr \<times> json) list"

text \<open>Truth value of an object, as \<open>if x\<close>, \<open>not x\<close> and \<open>x or y\<close> test it.\<close>

fun truthy :: "json \<Rightarrow> bool" where
  "truthy JNull = False"
| "truthy (JBool b) = b"
| "truthy (JInt n) = (n \<noteq> 0)"
| "truthy (JFloat f) = (\<not> float_is_zero f)"
| "truthy (JStr s) = (s \<noteq> [])"
| "truthy (JList xs) = (xs \<noteq> [])"
| "truthy (JObj d) = (d \<noteq> [])"

definition py_or :: "json \<Rightarrow> json \<Rightarrow> json" where
  "py_or a b = (if truthy a then a else b)"

fun type_name :: "json \<Rightarrow> pystr" where
  "type_name JNull = ascii ''NoneType''"
| "type_name (JBool b) = ascii ''bool''"
| "type_name (JInt n) = ascii ''int''"
| "type_name (JFloat f) = ascii ''float''"
| "type_name (JStr s) = ascii ''str''"
| "type_name (JList xs) = ascii ''list''"
| "type_name (JObj d) = ascii ''dict''"

subsection \<open>Exceptions\<close>

text \<open>
  An exception is its class and its message (\<open>str(e)\<close>). \<open>RemoteError\<close> stands for
  whatever the HTTP request or the decoding of its body raises.
\<close>

datatype pyerr =
    AttributeError pystr
  | TypeError pystr
  | ValueError pystr
  | IndexError pystr
  | UnicodeEncodeError pystr
  | RemoteError pystr

fun err_str :: "pyerr \<Rightarrow> pystr" where
  "err_str (AttributeError m) = m"
| "err_str (TypeError m) = m"
| "err_str (ValueError m) = m"
| "err_str (IndexError m) = m"
| "err_str (UnicodeEncodeError m) = m"
| "err_str (RemoteError m) = m"

definition no_attribute :: "pystr \<Rightarrow> string \<Rightarrow> pyerr" where
  "no_attribute tn attr =
     AttributeError ([39] @ tn @ [39] @ ascii '' object has no attribute '' @ [39] @ ascii attr @ [39])"

definition no_len :: "json \<Rightarrow> pyerr" where
  "no_len v = TypeError (ascii ''object of type '' @ [39] @ type_name v @ [39] @ ascii '' has no len()'')"

definition not_iterable :: "json \<Rightarrow> pyerr" where
  "not_iterable v = TypeError ([39] @ type_name v @ [39] @ ascii '' object is not iterable'')"

subsection \<open>The Python runtime\<close>

text \<open>
  A spreadsheet cell as \<open>row.get\<close> hands it over: \<open>None\<close> is Python's \<open>None\<close>,
  \<open>Some s\<close> any other object, \<open>s\<close> being what \<open>str\<close> returns on it (\<open>nan\<close> for a
  missing number).
\<close>

type_synonym cell = "pystr option"

text \<open>
  The Unicode tables and the conversions of the interpreter and of pandas are not part
  of the repository; they are a parameter of every function that uses them.
  \<open>isspace\<close>, \<open>isdigit\<close>, \<open>isdecimal\<close> and \<open>isalnum\<close> classify one code point
  (\<open>str.strip\<close> and the pattern \<open>\s\<close> use the first, \<open>str.isdigit\<close> the second, the
  pattern \<open>\d\<close> the third, \<open>\w\<close> and \<open>\b\<close> the fourth); \<open>lower\<close> and \<open>upper\<close> are
  \<open>str.lower\<close> and \<open>str.upper\<close>; \<open>float_of_str\<close> is \<open>float\<close> on a string (\<open>None\<close>
  when it raises); \<open>str_of_json\<close> is how an f-string prints an object that is not a
  string; \<open>str_of_series\<close> is \<open>str\<close> of the pandas Series that \<open>row.get\<close> returns for
  a label carried by several columns.
\<close>

record pylib =
  isspace :: "nat \<Rightarrow> bool"
  isdigit :: "nat \<Rightarrow> bool"
  isdecimal :: "nat \<Rightarrow> bool"
  isalnum :: "nat \<Rightarrow> bool"
  lower :: "pystr \<Rightarrow> pystr"
  upper :: "pystr \<Rightarrow> pystr"
  float_of_str :: "pystr \<Rightarrow> pyfloat option"
  str_of_json :: "json \<Rightarrow> pystr"
  str_of_series :: "cell list \<Rightarrow> pystr"

definition strip :: "pylib \<Rightarrow> pystr \<Rightarrow> pystr" where
  "strip L s = strip_by (isspace L) s"

definition str_isdigit :: "pylib \<Rightarrow> pystr \<Rightarrow> bool" where
  "str_isdigit L s = (s \<noteq> [] \<and> list_all (isdigit L) s)"

subsection \<open>Regular expressions\<close>

text \<open>
  The patterns of the source, matched as \<open>re\<close> matches them: a matcher returns every
  way to match at a position, in the order in which backtracking tries them (greedy
  repetition first, alternatives left to right), and the first one is the match. A
  position is the character before it, if any, and the text from it on.
\<close>

datatype cls = Digit | Space

datatype rx = Eps | Chr nat | Cls cls | Plus cls | Opt rx | Seq rx rx | Alt rx rx | Bnd

type_synonym pos = "nat option \<times> pystr"

fun in_cls :: "pylib \<Rightarrow> cls \<Rightarrow> nat \<Rightarrow> bool" where
  "in_cls L Digit c = isdecimal L c"
| "in_cls L Space c = isspace L c"

definition is_word :: "pylib \<Rightarrow> nat option \<Rightarrow> bool" where
  "is_word L c = (case c of None \<Rightarrow> False | Some x \<Rightarrow> isalnum L x \<or> x = 95)"

fun runs :: "(nat \<Rightarrow> bool) \<Rightarrow> pystr \<Rightarrow> pos list" where
  "runs P [] = []"
| "runs P (x # xs) = (if P x then runs P xs @ [(Some x, xs)] else [])"

fun rmatch :: "pylib \<Rightarrow> rx \<Rightarrow> pos \<Rightarrow> pos list" where
  "rmatch L Eps st = [st]"
| "rmatch L (Chr c) st =
     (case snd st of [] \<Rightarrow> [] | x # xs \<Rightarrow> if x = c then [(Some x, xs)] else [])"
| "rmatch L (Cls k) st =
     (case snd st of [] \<Rightarrow> [] | x # xs \<Rightarrow> if in_cls L k x then [(Some x, xs)] else [])"
| "rmatch L (Plus k) st = runs (in_cls L k) (snd st)"
| "rmatch L (Opt r) st = rmatch L r st @ [st]"
| "rmatch L (Seq a b) st = concat (map (rmatch L b) (rmatch L a st))"
| "rmatch L (Alt a b) st = rmatch L a st @ rmatch L b st"
| "rmatch L Bnd st =
     (if is_word L (fst st) \<noteq> is_word L (case snd st of [] \<Rightarrow> None | x # xs \<Rightarrow> Some x)
      then [st] else [])"

text \<open>
  The match at a position, when it is not empty (none of the patterns below matches
  the empty string).
\<close>

definition first_match :: "pylib \<Rightarrow> rx \<Rightarrow> pos \<Rightarrow> pos option" where
  "first_match L r st =
     (case rmatch L r st of
        [] \<Rightarrow> None
      | m # ms \<Rightarrow> if length (snd m) < length (snd st) then Some m else None)"

lemma first_match_shorter:
  "first_match L r (p, s) = Some (p', s') \<Longrightarrow> length s' < length s"
  by (auto simp: first_match_def split: list.splits if_splits)

text \<open>\<open>re.sub(r, repl, s)\<close>: the matches are found left to right and do not overlap.\<close>

function re_sub :: "pylib \<Rightarrow> rx \<Rightarrow> pystr \<Rightarrow> nat option \<Rightarrow> pystr \<Rightarrow> pystr" where
  "re_sub L r repl p [] = []"
| "re_sub L r repl p (x # xs) =
     (case first_match L r (p, x # xs) of
        None \<Rightarrow> x # re_sub L r repl (Some x) xs
      | Some m \<Rightarrow> repl @ re_sub L r repl (fst m) (snd m))"
  by pat_completeness auto
termination
proof (relation "measure (\<lambda>(L, r, repl, p, s). length s)")
  show "wf (measure (\<lambda>(L, r, repl, p, s). length s))" by simp
next
  fix L r repl p x xs
  show "((L, r, repl, Some x, xs), (L, r, repl, p, x # xs))
          \<in> measure (\<lambda>(L, r, repl, p, s). length s)"
    by simp
next
  fix L r repl p x xs m
  assume "first_match L r (p, x # xs) = Some m"
  then have "length (snd m) < length (x # xs)"
    using first_match_shorter [of L r p "x # xs" "fst m" "snd m"] by simp
  then show "((L, r, repl, fst m, snd m), (L, r, repl, p, x # xs))
          \<in> measure (\<lambda>(L, r, repl, p, s). length s)"
    by (simp add: split_beta)
qed

text \<open>\<open>re.split(r, s)\<close>: the pieces between the matches, empty ones included.\<close>

function re_split :: "pylib \<Rightarrow> rx \<Rightarrow> nat option \<Rightarrow> pystr \<Rightarrow> pystr list" where
  "re_split L r p [] = [[]]"
| "re_split L r p (x # xs) =
     (case first_match L r (p, x # xs) of
        None \<Rightarrow> (case re_split L r (Some x) xs of [] \<Rightarrow> [[x]] | q # qs \<Rightarrow> (x # q) # qs)
      | Some m \<Rightarrow> [] # re_split L r (fst m) (snd m))"
  by pat_completeness auto
termination
proof (relation "measure (\<lambda>(L, r, p, s). length s)")
  show "wf (measure (\<lambda>(L, r, p, s). length s))" by simp
next
  fix L r p x xs
  show "((L, r, Some x, xs), (L, r, p, x # xs)) \<in> measure (\<lambda>(L, r, p, s). length s)"
    by simp
next
  fix L r p x xs m
  assume "first_match L r (p, x # xs) = Some m"
  then have "length (snd m) < length (x # xs)"
    using first_match_shorter [of L r p "x # xs" "fst m" "snd m"] by simp
  then show "((L, r, fst m, snd m), (L, r, p, x # xs)) \<in> measure (\<lambda>(L, r, p, s). length s)"
    by (simp add: split_beta)
qed

fun lit :: "pystr \<Rightarrow> rx" where
  "lit [] = Eps"
| "lit [c] = Chr c"
| "lit (c # d # cs) = Seq (Chr c) (lit (d # cs))"

fun alts :: "rx list \<Rightarrow> rx" where
  "alts [] = Eps"
| "alts [r] = r"
| "alts (r # q # rs) = Alt r (alts (q # rs))"

fun seqs :: "rx list \<Rightarrow> rx" where
  "seqs [] = Eps"
| "seqs [r] = r"
| "seqs (r # q # rs) = Seq r (seqs (q # rs))"

text \<open>\<^verbatim>\<open>\b\d+\s?(mg|g|mcg|\<mu>g|ml|kg|l)\b\<close>, the micro sign being U+00B5.\<close>

definition rx_dose :: rx where
  "rx_dose = seqs [Bnd, Plus Digit, Opt (Cls Space),
     alts [lit (ascii ''mg''), lit (ascii ''g''), lit (ascii ''mcg''), lit (0xB5 # ascii ''g''),
           lit (ascii ''ml''), lit (ascii ''kg''), lit (ascii ''l'')],
     Bnd]"

text \<open>\<^verbatim>\<open>\b\d+\s?(comprimidos?|cp|caps?|tabletes?)\b\<close>\<close>

definition rx_form :: rx where
  "rx_form = seqs [Bnd, Plus Digit, Opt (Cls Space),
     alts [Seq (lit (ascii ''comprimido'')) (Opt (Chr 115)), lit (ascii ''cp''),
           Seq (lit (ascii ''cap'')) (Opt (Chr 115)), Seq (lit (ascii ''tablete'')) (Opt (Chr 115))],
     Bnd]"

text \<open>\<^verbatim>\<open>\s+\<close>\<close>

definition rx_ws :: rx where
  "rx_ws = Plus Space"

section \<open>Utilities\<close>

definition limpa :: "pylib \<Rightarrow> cell \<Rightarrow> pystr" where
  "limpa L v =
     (case v of
        None \<Rightarrow> []
      | Some text \<Rightarrow>
          (let s = strip L text
           in if lower L s = ascii ''nan'' \<or> lower L s = ascii ''none'' then [] else s))"

text \<open>
  \<open>float(v)\<close>, \<open>None\<close> when it raises. An integer is rounded to the nearest double,
  ties to even, and is too large from \<open>2^1024\<close> on.
\<close>

fun bitlen :: "nat \<Rightarrow> nat" where
  "bitlen n = (if n = 0 then 0 else Suc (bitlen (n div 2)))"

declare bitlen.simps [simp del]

definition float_of_int :: "int \<Rightarrow> pyfloat option" where
  "float_of_int n =
     (let a = nat \<bar>n\<bar>; k = bitlen a
      in if k \<le> 53 then Some (Fin (n < 0) a 0)
         else
           (let sh = k - 53; q = a div 2 ^ sh; r = a mod 2 ^ sh; half = 2 ^ (sh - 1);
                m = (if half < r \<or> (r = half \<and> odd q) then q + 1 else q)
            in if 2 ^ 1024 \<le> m * 2 ^ sh then None else Some (Fin (n < 0) m (int sh))))"

fun py_float :: "pylib \<Rightarrow> json \<Rightarrow> pyfloat option" where
  "py_float L (JFloat f) = Some f"
| "py_float L (JInt n) = float_of_int n"
| "py_float L (JBool b) = Some (Fin False (if b then 1 else 0) 0)"
| "py_float L (JStr s) = float_of_str L s"
| "py_float L JNull = None"
| "py_float L (JList xs) = None"
| "py_float L (JObj d) = None"

text \<open>
  \<open>f"{n:,.2f}"\<close>: the exact value of the double rounded to hundredths, ties to even,
  the integer part in groups of three digits.
\<close>

definition round_cents :: "nat \<Rightarrow> int \<Rightarrow> nat" where
  "round_cents m e =
     (if 0 \<le> e then 100 * m * 2 ^ nat e
      else
        (let d = 2 ^ nat (- e); q = (100 * m) div d; r = (100 * m) mod d
         in if d < 2 * r \<or> (2 * r = d \<and> odd q) then q + 1 else q))"

fun chunk3 :: "pystr \<Rightarrow> pystr" where
  "chunk3 (a # b # c # d # ds) = a # b # c # 44 # chunk3 (d # ds)"
| "chunk3 ds = ds"

definition group3 :: "pystr \<Rightarrow> pystr" where
  "group3 ds = rev (chunk3 (rev ds))"

fun fmt_2f :: "pyfloat \<Rightarrow> pystr" where
  "fmt_2f (Fin s m e) =
     (let c = round_cents m e
      in (if s then ascii ''-'' else []) @ group3 (dec (c div 100)) @ ascii ''.''
           @ [48 + (c mod 100) div 10, 48 + c mod 10])"
| "fmt_2f (Inf s) = (if s then ascii ''-inf'' else ascii ''inf'')"
| "fmt_2f NaN = ascii ''nan''"

definition preco_br :: "pylib \<Rightarrow> json \<Rightarrow> pystr" where
  "preco_br L v =
     (case py_float L v of
        None \<Rightarrow> nao_encontrado
      | Some n \<Rightarrow> ascii ''R$ '' @ replace_chr 88 46 (replace_chr 46 44 (replace_chr 44 88 (fmt_2f n))))"

subsection \<open>Operations on objects\<close>

text \<open>
  The source applies methods and built-ins to whatever the catalogue sent. Each of them
  is defined on every JSON value, raising where Python raises.
\<close>

definition ebind :: "pyerr + 'a \<Rightarrow> ('a \<Rightarrow> pyerr + 'b) \<Rightarrow> pyerr + 'b" where
  "ebind m f = (case m of Inl e \<Rightarrow> Inl e | Inr x \<Rightarrow> f x)"

fun emap :: "('a \<Rightarrow> pyerr + 'b) \<Rightarrow> 'a list \<Rightarrow> pyerr + 'b list" where
  "emap f [] = Inr []"
| "emap f (x # xs) = ebind (f x) (\<lambda>y. ebind (emap f xs) (\<lambda>ys. Inr (y # ys)))"

text \<open>\<open>v.get(k, dflt)\<close>\<close>

fun py_get :: "json \<Rightarrow> pystr \<Rightarrow> json \<Rightarrow> pyerr + json" where
  "py_get (JObj d) k dflt = Inr (case map_of d k of None \<Rightarrow> dflt | Some v \<Rightarrow> v)"
| "py_get v k dflt = Inl (no_attribute (type_name v) ''get'')"

text \<open>The string on which a method of \<open>str\<close> is called: other objects do not have it.\<close>

fun as_str :: "json \<Rightarrow> string \<Rightarrow> pyerr + pystr" where
  "as_str (JStr s) attr = Inr s"
| "as_str v attr = Inl (no_attribute (type_name v) attr)"

text \<open>\<open>len(v)\<close>\<close>

fun py_len :: "json \<Rightarrow> pyerr + nat" where
  "py_len (JStr s) = Inr (length s)"
| "py_len (JList xs) = Inr (length xs)"
| "py_len (JObj d) = Inr (length d)"
| "py_len v = Inl (no_len v)"

text \<open>The items a loop over \<open>v\<close> sees: the characters of a string, the keys of a dict.\<close>

fun py_iter :: "json \<Rightarrow> pyerr + json list" where
  "py_iter (JList xs) = Inr xs"
| "py_iter (JStr s) = Inr (map (\<lambda>c. JStr [c]) s)"
| "py_iter (JObj d) = Inr (map (\<lambda>kv. JStr (fst kv)) d)"
| "py_iter v = Inl (not_iterable v)"

text \<open>\<open>v[k]\<close> for a string key and \<open>v[0]\<close>, \<open>None\<close> when they raise.\<close>

fun subscript_key :: "json \<Rightarrow> pystr \<Rightarrow> json option" where
  "subscript_key (JObj d) k = map_of d k"
| "subscript_key v k = None"

fun subscript_0 :: "json \<Rightarrow> json option" where
  "subscript_0 (JList (x # xs)) = Some x"
| "subscript_0 (JStr (c # cs)) = Some (JStr [c])"
| "subscript_0 v = None"

subsection \<open>Fields of a product\<close>

definition k_name :: pystr where "k_name = ascii ''name''"
definition k_categoryTree :: pystr where "k_categoryTree = ascii ''categoryTree''"
definition k_categories :: pystr where "k_categories = ascii ''categories''"
definition k_productName :: pystr where "k_productName = ascii ''productName''"
definition k_linkText :: pystr where "k_linkText = ascii ''linkText''"
definition k_items :: pystr where "k_items = ascii ''items''"
definition k_sellers :: pystr where "k_sellers = ascii ''sellers''"
definition k_commertialOffer :: pystr where "k_commertialOffer = ascii ''commertialOffer''"
definition k_Price :: pystr where "k_Price = ascii ''Price''"

definition sep_gt :: pystr where
  "sep_gt = ascii '' > ''"

text \<open>
  \<open>[n.get("name") for n in tree if isinstance(n, dict) and n.get("name")]\<close>
\<close>

definition tree_names :: "json list \<Rightarrow> json list" where
  "tree_names tree =
     concat (map (\<lambda>n. case n of
                JObj d \<Rightarrow> (case map_of d k_name of
                             None \<Rightarrow> []
                           | Some v \<Rightarrow> if truthy v then [v] else [])
              | _ \<Rightarrow> []) tree)"

text \<open>\<open>[n for n in nomes if n.strip().lower() != "in\<iacute>cio"]\<close>\<close>

fun drop_home :: "pylib \<Rightarrow> json list \<Rightarrow> pyerr + pystr list" where
  "drop_home L [] = Inr []"
| "drop_home L (n # ns) =
     ebind (as_str n ''strip'') (\<lambda>s.
     ebind (drop_home L ns) (\<lambda>rest.
       Inr (if lower L (strip L s) \<noteq> inicio then s # rest else rest)))"

text \<open>\<open>max(cats, key=len)\<close>: the first of the longest items.\<close>

fun max_by :: "nat \<times> json \<Rightarrow> (nat \<times> json) list \<Rightarrow> json" where
  "max_by best [] = snd best"
| "max_by best (x # xs) = max_by (if fst best < fst x then x else best) xs"

definition longest :: "json \<Rightarrow> pyerr + json" where
  "longest cats =
     ebind (py_iter cats) (\<lambda>xs.
     ebind (emap py_len xs) (\<lambda>ns.
       case zip ns xs of
         [] \<Rightarrow> Inl (ValueError (ascii ''max() arg is an empty sequence''))
       | b # bs \<Rightarrow> Inr (max_by b bs)))"

definition breadcrumb :: "pylib \<Rightarrow> json \<Rightarrow> pyerr + pystr" where
  "breadcrumb L prd =
     ebind (py_get prd k_categoryTree JNull) (\<lambda>tree.
     ebind (case tree of
              JList (n # ns) \<Rightarrow> drop_home L (tree_names (n # ns))
            | _ \<Rightarrow> Inr []) (\<lambda>nomes.
       if nomes \<noteq> [] then Inr (join sep_gt nomes)
       else
         ebind (py_get prd k_categories JNull) (\<lambda>c.
           let cats = py_or c (JList [])
           in if truthy cats
              then
                ebind (longest cats) (\<lambda>longest_cat.
                ebind (as_str longest_cat ''strip'') (\<lambda>s.
                  let caminho = strip_by (\<lambda>c. c = 47) s;
                      partes = map (\<lambda>p. strip L (replace_chr 45 32 p))
                                 (filter (\<lambda>p. lower L p \<noteq> inicio) (split_chr 47 caminho))
                  in if partes \<noteq> [] then Inr (join sep_gt partes) else Inr travessao))
              else Inr travessao)))"

text \<open>
  \<open>float(prod["items"][0]["sellers"][0]["commertialOffer"].get("Price") or 0)\<close>, and
  \<open>0.0\<close> when any step raises.
\<close>

definition price_from_product :: "pylib \<Rightarrow> json \<Rightarrow> pyfloat" where
  "price_from_product L prd =
     (case Option.bind (subscript_key prd k_items) (\<lambda>its.
           Option.bind (subscript_0 its) (\<lambda>it.
           Option.bind (subscript_key it k_sellers) (\<lambda>ss.
           Option.bind (subscript_0 ss) (\<lambda>seller.
           Option.bind (subscript_key seller k_commertialOffer) (\<lambda>offer.
           Option.bind (case py_get offer k_Price JNull of Inl e \<Rightarrow> None | Inr v \<Rightarrow> Some v) (\<lambda>v.
             py_float L (py_or v (JInt 0)))))))) of
        None \<Rightarrow> float_zero
      | Some f \<Rightarrow> f)"

text \<open>
  \<open>urllib.parse.quote\<close>: the string is encoded in UTF-8 (a surrogate cannot be), the
  bytes of letters, digits and \<^verbatim>\<open>_.-~/\<close> stay, every other byte becomes \<^verbatim>\<open>%XX\<close>.
\<close>

definition is_surrogate :: "nat \<Rightarrow> bool" where
  "is_surrogate c = (0xD800 \<le> c \<and> c \<le> 0xDFFF)"

definition utf8 :: "nat \<Rightarrow> nat list" where
  "utf8 c =
     (if c < 0x80 then [c]
      else if c < 0x800 then [0xC0 + c div 64, 0x80 + c mod 64]
      else if c < 0x10000 then [0xE0 + c div 4096, 0x80 + (c div 64) mod 64, 0x80 + c mod 64]
      else [0xF0 + c div 262144, 0x80 + (c div 4096) mod 64, 0x80 + (c div 64) mod 64,
            0x80 + c mod 64])"

definition hex_digit :: "bool \<Rightarrow> nat \<Rightarrow> nat" where
  "hex_digit up d = (if d < 10 then 48 + d else (if up then 55 else 87) + d)"

definition quote_byte :: "nat \<Rightarrow> pystr" where
  "quote_byte b =
     (if (65 \<le> b \<and> b \<le> 90) \<or> (97 \<le> b \<and> b \<le> 122) \<or> (48 \<le> b \<and> b \<le> 57)
         \<or> b = 95 \<or> b = 46 \<or> b = 45 \<or> b = 126 \<or> b = 47
      then [b] else [37, hex_digit True (b div 16), hex_digit True (b mod 16)])"

definition encode_error :: "pystr \<Rightarrow> pyerr" where
  "encode_error s =
     (let i = length (takeWhile (\<lambda>c. \<not> is_surrogate c) s);
          bad = takeWhile is_surrogate (drop i s);
          c = hd bad
      in UnicodeEncodeError
           (ascii [CHR 0x27] @ ascii ''utf-8'' @ ascii [CHR 0x27] @ ascii '' codec can''
            @ ascii [CHR 0x27] @ ascii ''t encode ''
            @ (if length bad = 1
               then ascii ''character '' @ ascii [CHR 0x27] @ [92, 117]
                    @ map (hex_digit False) [c div 4096, (c div 256) mod 16, (c div 16) mod 16, c mod 16]
                    @ ascii [CHR 0x27] @ ascii '' in position '' @ dec i
               else ascii ''characters in position '' @ dec i @ ascii ''-'' @ dec (i + length bad - 1))
            @ ascii '': surrogates not allowed''))"

definition quote :: "pystr \<Rightarrow> pyerr + pystr" where
  "quote s =
     (if list_ex is_surrogate s then Inl (encode_error s)
      else Inr (concat (map (\<lambda>c. concat (map quote_byte (utf8 c))) s)))"

definition BASE :: pystr where
  "BASE = ascii ''https://www.saojoaofarmacias.com.br''"

definition link_from_product :: "pylib \<Rightarrow> json \<Rightarrow> pyerr + pystr" where
  "link_from_product L prd =
     ebind (py_get prd k_linkText JNull) (\<lambda>lt.
       let link_text = py_or lt (JStr [])
       in ebind (if \<not> truthy link_text
                 then
                   ebind (py_get prd k_productName JNull) (\<lambda>pn.
                   ebind (as_str (py_or pn (JStr [])) ''lower'') (\<lambda>s.
                   ebind (quote (replace_chr 32 45 (strip L (lower L s)))) (\<lambda>q. Inr (JStr q))))
                 else Inr link_text) (\<lambda>link_text.
            Inr (BASE @ ascii ''/''
                 @ (case link_text of JStr s \<Rightarrow> s | v \<Rightarrow> str_of_json L v)
                 @ ascii ''/p'')))"

subsection \<open>The match scorer\<close>

text \<open>\<open>[t for t in re.split(r"\s+", ref) if t]\<close>\<close>

definition tokens :: "pylib \<Rightarrow> pystr \<Rightarrow> pystr list" where
  "tokens L ref = filter (\<lambda>t. t \<noteq> []) (re_split L rx_ws None ref)"

text \<open>
  The sort key of a candidate. The generator evaluates its condition, and with it the
  lower-cased name, once for each token, so without tokens only \<open>len\<close> reads the name.
\<close>

definition score :: "pylib \<Rightarrow> pystr list \<Rightarrow> json \<Rightarrow> pyerr + (int \<times> nat)" where
  "score L toks p =
     ebind (if toks = [] then Inr 0
            else
              ebind (py_get p k_productName (JStr [])) (\<lambda>v.
              ebind (as_str (py_or v (JStr [])) ''lower'') (\<lambda>s.
                Inr (length (filter (\<lambda>t. str_in t (lower L s)) toks))))) (\<lambda>cnt.
     ebind (py_get p k_productName (JStr [])) (\<lambda>v.
     ebind (py_len v) (\<lambda>n. Inr (- int cnt, n))))"

text \<open>\<open>sorted\<close> is stable, as \<open>sort_key\<close> is; \<open>None\<close> is Python's \<open>None\<close>.\<close>

definition best_match :: "pylib \<Rightarrow> json \<Rightarrow> pystr \<Rightarrow> pyerr + json option" where
  "best_match L lista termo_ref =
     (if \<not> truthy lista then Inr None
      else
        (let ref = lower L termo_ref; toks = tokens L ref
         in ebind (py_iter lista) (\<lambda>xs.
            ebind (emap (score L toks) xs) (\<lambda>ks.
              case sort_key fst (zip ks xs) of
                [] \<Rightarrow> Inl (IndexError (ascii ''list index out of range''))
              | kp # kps \<Rightarrow> Inr (Some (snd kp))))))"

section \<open>Queries\<close>

text \<open>
  What the program does to the outside is recorded as a trace: the calls of the two
  search functions and the pauses. The catalogue answers a request for a URL with a
  decoded JSON value or with an exception, and its answer may depend on everything
  that happened before.
\<close>

datatype event = SearchTerm pystr | SearchEan pystr | Sleep

type_synonym catalog = "event list \<Rightarrow> pystr \<Rightarrow> pyerr + json"

definition url_ean :: "pystr \<Rightarrow> pystr" where
  "url_ean q = BASE @ ascii ''/api/catalog_system/pub/products/search/?fq=alternateIds_Ean:'' @ q"

definition url_term :: "pystr \<Rightarrow> nat \<Rightarrow> nat \<Rightarrow> pystr" where
  "url_term q from to =
     BASE @ ascii ''/api/catalog_system/pub/products/search/?ft='' @ q
       @ ascii ''&_from='' @ dec from @ ascii ''&_to='' @ dec to"

definition search_ean :: "catalog \<Rightarrow> event list \<Rightarrow> pystr \<Rightarrow> (pyerr + json) \<times> event list" where
  "search_ean W tr ean =
     (case quote ean of
        Inl e \<Rightarrow> Inl e
      | Inr q \<Rightarrow> W tr (url_ean q),
      tr @ [SearchEan ean])"

definition search_term ::
  "catalog \<Rightarrow> event list \<Rightarrow> pystr \<Rightarrow> nat \<Rightarrow> nat \<Rightarrow> (pyerr + json) \<times> event list" where
  "search_term W tr term from to =
     (case quote term of
        Inl e \<Rightarrow> Inl e
      | Inr q \<Rightarrow> W tr (url_term q from to),
      tr @ [SearchTerm term])"

definition term_simplify :: "pylib \<Rightarrow> pystr \<Rightarrow> pystr" where
  "term_simplify L term =
     (let t = lower L term;
          t = re_sub L rx_dose (ascii '' '') None t;
          t = re_sub L rx_form (ascii '' '') None t;
          r = strip L (re_sub L rx_ws (ascii '' '') None t)
      in if r \<noteq> [] then r else term)"

definition k_EAN :: pystr where "k_EAN = ascii ''EAN''"
definition k_NOME :: pystr where "k_NOME = ascii ''NOME''"
definition k_Preco :: pystr where "k_Preco = ascii ''Preco''"
definition k_Link :: pystr where "k_Link = ascii ''Link''"
definition k_Classificacao :: pystr where "k_Classificacao = ascii ''Classificacao''"
definition k_Observacao :: pystr where "k_Observacao = ascii ''Observacao''"

text \<open>The result without a product, with the note \<open>obs\<close>.\<close>

definition not_found :: "pystr \<Rightarrow> dict" where
  "not_found obs =
     [(k_Preco, JStr nao_encontrado), (k_Link, JStr []), (k_Classificacao, JStr travessao),
      (k_Observacao, JStr obs)]"

definition sem_resultados :: dict where
  "sem_resultados = not_found (ascii ''Sem resultados'')"

definition sem_match :: dict where
  "sem_match = not_found (ascii ''Sem match'')"

text \<open>\<open>try: produtos = ... except: produtos = []\<close>\<close>

definition attempt :: "pyerr + json \<Rightarrow> json" where
  "attempt r = (case r of Inl e \<Rightarrow> JList [] | Inr produtos \<Rightarrow> produtos)"

definition consultar ::
  "pylib \<Rightarrow> catalog \<Rightarrow> event list \<Rightarrow> pystr \<Rightarrow> pystr \<Rightarrow> (pyerr + dict) \<times> event list" where
  "consultar L W tr termo nome_ref =
     (let t = strip L termo;
          (r1, tr1) = search_term W tr t 0 19;
          produtos1 = attempt r1;
          (produtos2, tr2) =
            (if \<not> truthy produtos1 \<and> str_isdigit L t \<and> 8 \<le> length t
             then (let (r2, tr') = search_ean W tr1 t in (attempt r2, tr'))
             else (produtos1, tr1));
          (produtos, tr3) =
            (if \<not> truthy produtos2
             then (let t2 = term_simplify L t
                   in if t2 \<noteq> t
                      then (let (r3, tr') = search_term W tr2 t2 0 19 in (attempt r3, tr'))
                      else (produtos2, tr2))
             else (produtos2, tr2))
      in (if \<not> truthy produtos then Inr sem_resultados
          else
            ebind (best_match L produtos (if nome_ref \<noteq> [] then nome_ref else t)) (\<lambda>best.
              case best of
                None \<Rightarrow> Inr sem_match
              | Some prd \<Rightarrow>
                  if \<not> truthy prd then Inr sem_match
                  else
                    (let preco = preco_br L (JFloat (price_from_product L prd))
                     in ebind (link_from_product L prd) (\<lambda>link.
                        ebind (breadcrumb L prd) (\<lambda>classificacao.
                          Inr [(k_Preco, JStr preco), (k_Link, JStr link),
                               (k_Classificacao, JStr classificacao),
                               (k_Observacao, JStr travessao)])))),
          tr3))"

section \<open>Batch processing\<close>

text \<open>
  A column label of a DataFrame is a string or some other object (\<open>read_excel\<close> yields
  a number for a header cell that holds one); \<open>LObj tn\<close> is a label of the type named
  \<open>tn\<close>. A row holds one cell for each column.
\<close>

datatype label = LStr pystr | LObj pystr

record dataframe =
  columns :: "label list"
  rows :: "cell list list"

record result_frame =
  out_columns :: "pystr list"
  out_rows :: "json option list list"

text \<open>\<open>c.upper().strip()\<close>\<close>

fun norm_label :: "pylib \<Rightarrow> label \<Rightarrow> pyerr + pystr" where
  "norm_label L (LStr c) = Inr (strip L (upper L c))"
| "norm_label L (LObj tn) = Inl (no_attribute tn ''upper'')"

text \<open>
  \<open>row.get(key, dflt)\<close> on a row of \<open>iterrows\<close>: the default without such a column, the
  cell with one, a Series of the cells with several.
\<close>

definition row_get :: "pylib \<Rightarrow> pystr list \<Rightarrow> cell list \<Rightarrow> pystr \<Rightarrow> cell \<Rightarrow> cell" where
  "row_get L cols row key dflt =
     (case map snd (filter (\<lambda>lc. fst lc = key) (zip cols row)) of
        [] \<Rightarrow> dflt
      | [c] \<Rightarrow> c
      | c # d # cs \<Rightarrow> Some (str_of_series L (c # d # cs)))"

text \<open>\<open>{**a, **b}\<close>: the items of \<open>b\<close> replace those of \<open>a\<close> or come after them.\<close>

definition dict_merge :: "dict \<Rightarrow> dict \<Rightarrow> dict" where
  "dict_merge a b = foldl (\<lambda>d kv. AList.update (fst kv) (snd kv) d) a b"

definition erro :: "pyerr \<Rightarrow> dict" where
  "erro e = not_found (ascii ''Erro: '' @ err_str e)"

definition linha_vazia :: "pystr \<Rightarrow> pystr \<Rightarrow> dict" where
  "linha_vazia ean nome =
     [(k_EAN, JStr ean), (k_NOME, JStr nome), (k_Preco, JStr nao_encontrado), (k_Link, JStr []),
      (k_Classificacao, JStr travessao), (k_Observacao, JStr (ascii ''Linha vazia''))]"

text \<open>\<open>try: dados = _consultar(...) except Exception as e: dados = {...}\<close>\<close>

definition contained :: "(pyerr + dict) \<times> event list \<Rightarrow> dict \<times> event list" where
  "contained r = (case fst r of Inl e \<Rightarrow> erro e | Inr dados \<Rightarrow> dados, snd r)"

text \<open>The body of the loop over the rows: the item appended to \<open>saida\<close>.\<close>

definition processar_linha ::
  "pylib \<Rightarrow> catalog \<Rightarrow> event list \<Rightarrow> pystr list \<Rightarrow> cell list \<Rightarrow> dict \<times> event list" where
  "processar_linha L W tr cols row =
     (let ean = limpa L (row_get L cols row k_EAN (Some []));
          nome = limpa L (row_get L cols row k_NOME (Some []));
          termo = (if ean \<noteq> [] then ean else nome)
      in if termo = [] then (linha_vazia ean nome, tr)
         else
           (let (dados1, tr1) =
                  (if ean \<noteq> []
                   then contained (consultar L W tr ean (if nome \<noteq> [] then nome else ean))
                   else ([], tr));
                (dados, tr2) =
                  (if dados1 = [] \<or> map_of dados1 k_Preco = Some (JStr nao_encontrado)
                   then (if nome \<noteq> [] then contained (consultar L W tr1 nome nome)
                         else (if dados1 = [] then sem_resultados else dados1, tr1))
                   else (dados1, tr1))
            in (dict_merge [(k_EAN, JStr ean), (k_NOME, JStr (if nome \<noteq> [] then nome else termo))]
                  dados,
                tr2 @ [Sleep])))"

fun iterrows ::
  "pylib \<Rightarrow> catalog \<Rightarrow> event list \<Rightarrow> pystr list \<Rightarrow> cell list list \<Rightarrow> dict list \<times> event list" where
  "iterrows L W tr cols [] = ([], tr)"
| "iterrows L W tr cols (row # rest) =
     (let (d, tr1) = processar_linha L W tr cols row;
          (ds, tr2) = iterrows L W tr1 cols rest
      in (d # ds, tr2))"

definition out_cols :: "pystr list" where
  "out_cols = [k_EAN, k_NOME, k_Preco, k_Link, k_Classificacao, k_Observacao]"

definition missing_columns :: pyerr where
  "missing_columns = ValueError (ascii ''A planilha precisa ter ao menos a coluna NOME ou EAN.'')"

text \<open>The labels after the check of the columns, or its error.\<close>

definition check_columns :: "pystr list \<Rightarrow> pyerr + pystr list" where
  "check_columns cols =
     (if k_EAN \<notin> set cols \<and> k_NOME \<notin> set cols
      then (if length cols = 1 then Inr [k_NOME] else Inl missing_columns)
      else Inr cols)"

text \<open>
  \<open>pd.DataFrame(saida, columns=[...])\<close>: for each item of \<open>saida\<close> the values of the six
  columns, \<open>None\<close> where the item lacks the key.
\<close>

definition processar_dataframe ::
  "pylib \<Rightarrow> catalog \<Rightarrow> event list \<Rightarrow> dataframe \<Rightarrow> (pyerr + result_frame) \<times> event list" where
  "processar_dataframe L W tr df_in =
     (case ebind (emap (norm_label L) (columns df_in)) check_columns of
        Inl e \<Rightarrow> (Inl e, tr)
      | Inr cols \<Rightarrow>
          (let (saida, tr') = iterrows L W tr cols (rows df_in)
           in (Inr \<lparr>out_columns = out_cols,
                    out_rows = map (\<lambda>d. map (map_of d) out_cols) saida\<rparr>,
               tr')))"

section \<open>The runtime on Latin-1 text\<close>

text \<open>
  The tables of CPython for the code points below 256 (Basic Latin and Latin-1
  Supplement), used to run the functions on concrete text of that range; the three
  conversions are left open.
\<close>

definition latin1_isspace :: "nat \<Rightarrow> bool" where
  "latin1_isspace c = ((9 \<le> c \<and> c \<le> 13) \<or> (28 \<le> c \<and> c \<le> 32) \<or> c = 133 \<or> c = 160)"

definition latin1_isdecimal :: "nat \<Rightarrow> bool" where
  "latin1_isdecimal c = (48 \<le> c \<and> c \<le> 57)"

definition latin1_isdigit :: "nat \<Rightarrow> bool" where
  "latin1_isdigit c = (latin1_isdecimal c \<or> c = 178 \<or> c = 179 \<or> c = 185)"

definition latin1_isalnum :: "nat \<Rightarrow> bool" where
  "latin1_isalnum c =
     (latin1_isdigit c \<or> (65 \<le> c \<and> c \<le> 90) \<or> (97 \<le> c \<and> c \<le> 122) \<or> c = 170 \<or> c = 181
      \<or> c = 186 \<or> (188 \<le> c \<and> c \<le> 190) \<or> (192 \<le> c \<and> c \<le> 214) \<or> (216 \<le> c \<and> c \<le> 246)
      \<or> (248 \<le> c \<and> c \<le> 255))"

definition latin1_lower :: "pystr \<Rightarrow> pystr" where
  "latin1_lower s =
     map (\<lambda>c. if (65 \<le> c \<and> c \<le> 90) \<or> (192 \<le> c \<and> c \<le> 214) \<or> (216 \<le> c \<and> c \<le> 222)
               then c + 32 else c) s"

definition latin1_upper :: "pystr \<Rightarrow> pystr" where
  "latin1_upper s =
     concat (map (\<lambda>c. if (97 \<le> c \<and> c \<le> 122) \<or> (224 \<le> c \<and> c \<le> 246) \<or> (248 \<le> c \<and> c \<le> 254)
                       then [c - 32]
                       else if c = 181 then [924]
                       else if c = 223 then [83, 83]
                       else if c = 255 then [376]
                       else [c]) s)"

definition latin1 ::
  "(pystr \<Rightarrow> pyfloat option) \<Rightarrow> (json \<Rightarrow> pystr) \<Rightarrow> (cell list \<Rightarrow> pystr) \<Rightarrow> pylib" where
  "latin1 fs sj ss =
     \<lparr>isspace = latin1_isspace, isdigit = latin1_isdigit, isdecimal = latin1_isdecimal,
      isalnum = latin1_isalnum, lower = latin1_lower, upper = latin1_upper,
      float_of_str = fs, str_of_json = sj, str_of_series = ss\<rparr>"

section \<open>Concrete runtime and catalogues\<close>

text \<open>The Latin-1 runtime with conversions that are never reached below.\<close>

definition runtime0 :: pylib where
  "runtime0 = latin1 (\<lambda>s. None) (\<lambda>v. []) (\<lambda>cs. [])"

text \<open>A catalogue that answers every request with one product without any field.\<close>

definition one_product :: catalog where
  "one_product = (\<lambda>tr url. Inr (JList [JObj []]))"

lemma runtime0_simps:
  "isspace runtime0 = latin1_isspace" "isdigit runtime0 = latin1_isdigit"
  "isdecimal runtime0 = latin1_isdecimal" "isalnum runtime0 = latin1_isalnum"
  "lower runtime0 = latin1_lower" "upper runtime0 = latin1_upper"
  by (simp_all add: runtime0_def latin1_def)

lemma ascii_simps: "ascii [] = []" "ascii (c # cs) = of_char c # ascii cs"
  by (simp_all add: ascii_def)

section \<open>The order of the searches\<close>

text \<open>
  A search yields no candidates when it raises or when what it returns is empty, which
  is what \<open>not produtos\<close> tests after the \<open>try\<close>.
\<close>

definition no_candidates :: "pyerr + json \<Rightarrow> bool" where
  "no_candidates r = (case r of Inl e \<Rightarrow> True | Inr produtos \<Rightarrow> \<not> truthy produtos)"

text \<open>The catalogue that answers with an empty list where \<open>W\<close> raises.\<close>

definition swallow :: "catalog \<Rightarrow> catalog" where
  "swallow W = (\<lambda>tr url. Inr (attempt (W tr url)))"

lemma no_candidates_attempt: "no_candidates r = (\<not> truthy (attempt r))"
  by (simp add: no_candidates_def attempt_def split: sum.splits)

lemma snd_search_term [simp]: "snd (search_term W tr t a b) = tr @ [SearchTerm t]"
  by (simp add: search_term_def)

lemma snd_search_ean [simp]: "snd (search_ean W tr t) = tr @ [SearchEan t]"
  by (simp add: search_ean_def)

lemma attempt_swallow_term:
  "attempt (fst (search_term (swallow W) tr t a b)) = attempt (fst (search_term W tr t a b))"
  by (simp add: search_term_def swallow_def attempt_def split: sum.splits)

lemma attempt_swallow_ean:
  "attempt (fst (search_ean (swallow W) tr t)) = attempt (fst (search_ean W tr t))"
  by (simp add: search_ean_def swallow_def attempt_def split: sum.splits)

text \<open>
  The first half of \<open>consultar\<close> on its own: the candidates that the three attempts
  leave, and the trace after them.
\<close>

definition found :: "pylib \<Rightarrow> catalog \<Rightarrow> event list \<Rightarrow> pystr \<Rightarrow> json \<times> event list" where
  "found L W tr t =
     (let r1 = search_term W tr t 0 19;
          p2 = (if \<not> truthy (attempt (fst r1)) \<and> str_isdigit L t \<and> 8 \<le> length t
                then (attempt (fst (search_ean W (snd r1) t)), snd (search_ean W (snd r1) t))
                else (attempt (fst r1), snd r1))
      in if \<not> truthy (fst p2) \<and> term_simplify L t \<noteq> t
         then (attempt (fst (search_term W (snd p2) (term_simplify L t) 0 19)),
               snd (search_term W (snd p2) (term_simplify L t) 0 19))
         else p2)"

text \<open>The second half: what \<open>consultar\<close> returns for the candidates \<open>produtos\<close>.\<close>

definition resolve :: "pylib \<Rightarrow> json \<Rightarrow> pystr \<Rightarrow> pyerr + dict" where
  "resolve L produtos ref =
     (if \<not> truthy produtos then Inr sem_resultados
      else
        ebind (best_match L produtos ref) (\<lambda>best.
          case best of
            None \<Rightarrow> Inr sem_match
          | Some prd \<Rightarrow>
              if \<not> truthy prd then Inr sem_match
              else
                (let preco = preco_br L (JFloat (price_from_product L prd))
                 in ebind (link_from_product L prd) (\<lambda>link.
                    ebind (breadcrumb L prd) (\<lambda>classificacao.
                      Inr [(k_Preco, JStr preco), (k_Link, JStr link),
                           (k_Classificacao, JStr classificacao),
                           (k_Observacao, JStr travessao)])))))"

lemma consultar_found:
  "consultar L W tr termo nome_ref =
     (resolve L (fst (found L W tr (strip L termo)))
        (if nome_ref \<noteq> [] then nome_ref else strip L termo),
      snd (found L W tr (strip L termo)))"
  by (simp add: consultar_def found_def resolve_def Let_def split_def)

lemma snd_found:
  "snd (found L W tr t) =
     tr @ [SearchTerm t]
       @ (if no_candidates (fst (search_term W tr t 0 19)) \<and> str_isdigit L t \<and> 8 \<le> length t
          then [SearchEan t] else [])
       @ (if no_candidates (fst (search_term W tr t 0 19))
             \<and> (str_isdigit L t \<and> 8 \<le> length t
                  \<longrightarrow> no_candidates (fst (search_ean W (tr @ [SearchTerm t]) t)))
             \<and> term_simplify L t \<noteq> t
          then [SearchTerm (term_simplify L t)] else [])"
  by (simp add: found_def Let_def no_candidates_attempt)

lemma found_swallow: "found L (swallow W) tr t = found L W tr t"
  by (simp add: found_def Let_def attempt_swallow_term attempt_swallow_ean)

text \<open>
  C1. \<open>consultar\<close> searches in the order term, code, simplified term. The search by
  code is made exactly when the search by term yielded no candidates (or raised) and
  the term is all digits and at least 8 long; the search by the simplified term exactly
  when every search made before yielded no candidates and the simplified term differs
  from the term. So when the search by term yields a candidate, nothing else is
  searched. An exception of a search counts as an empty answer: \<open>consultar\<close> returns
  the same with the catalogue in which every exception is replaced by an empty list.
\<close>

theorem consultar_search_order:
  "(let t = strip L termo;
        r1 = fst (search_term W tr t 0 19);
        by_code = (no_candidates r1 \<and> str_isdigit L t \<and> 8 \<le> length t);
        r2 = fst (search_ean W (tr @ [SearchTerm t]) t);
        t2 = term_simplify L t;
        by_simplified = (no_candidates r1 \<and> (by_code \<longrightarrow> no_candidates r2) \<and> t2 \<noteq> t)
    in snd (consultar L W tr termo nome_ref)
         = tr @ [SearchTerm t] @ (if by_code then [SearchEan t] else [])
              @ (if by_simplified then [SearchTerm t2] else [])
       \<and> (\<not> no_candidates r1 \<longrightarrow> snd (consultar L W tr termo nome_ref) = tr @ [SearchTerm t]))
   \<and> consultar L (swallow W) tr termo nome_ref = consultar L W tr termo nome_ref"
proof -
  have tr: "snd (consultar L W tr termo nome_ref) = snd (found L W tr (strip L termo))"
    by (simp add: consultar_found)
  have sw: "consultar L (swallow W) tr termo nome_ref = consultar L W tr termo nome_ref"
    by (simp only: consultar_found found_swallow)
  show ?thesis
    by (simp add: Let_def tr sw snd_found)
qed

lemma strip_a: "strip runtime0 (ascii ''a'') = ascii ''a''"
  by (simp add: strip_def strip_by_def runtime0_simps latin1_isspace_def ascii_simps)

lemma search_one_product:
  "fst (search_term one_product tr (ascii ''a'') 0 19) = Inr (JList [JObj []])"
  by (simp add: search_term_def one_product_def quote_def is_surrogate_def ascii_simps)

theorem consultar_search_order_witness:
  "\<not> no_candidates (fst (search_term one_product [] (strip runtime0 (ascii ''a'')) 0 19))
   \<and> snd (consultar runtime0 one_product [] (ascii ''a'') (ascii ''a'')) = [SearchTerm (ascii ''a'')]"
  using consultar_search_order [of runtime0 "ascii ''a''" one_product "[]" "ascii ''a''"]
  by (simp add: Let_def strip_a search_one_product no_candidates_def)

section \<open>Results and rows\<close>

lemma keys_neq:
  "k_EAN \<noteq> k_NOME" "k_EAN \<noteq> k_Preco" "k_EAN \<noteq> k_Link" "k_EAN \<noteq> k_Classificacao" "k_EAN \<noteq> k_Observacao"
  "k_NOME \<noteq> k_Preco" "k_NOME \<noteq> k_Link" "k_NOME \<noteq> k_Classificacao" "k_NOME \<noteq> k_Observacao"
  "k_Preco \<noteq> k_Link" "k_Preco \<noteq> k_Classificacao" "k_Preco \<noteq> k_Observacao"
  "k_Link \<noteq> k_Classificacao" "k_Link \<noteq> k_Observacao" "k_Classificacao \<noteq> k_Observacao"
  by (simp_all add: k_EAN_def k_NOME_def k_Preco_def k_Link_def k_Classificacao_def k_Observacao_def ascii_def)

text \<open>The shape of a result: the four keys in this order, each with a string.\<close>

fun is_str :: "json \<Rightarrow> bool" where
  "is_str (JStr s) = True"
| "is_str v = False"

definition result_keys :: "pystr list" where
  "result_keys = [k_Preco, k_Link, k_Classificacao, k_Observacao]"

definition ok_result :: "dict \<Rightarrow> bool" where
  "ok_result d = (map fst d = result_keys \<and> list_all is_str (map snd d))"

lemma ok_not_found: "ok_result (not_found obs)"
  by (simp add: ok_result_def not_found_def result_keys_def)

lemma ok_resolve: "resolve L ps ref = Inr d \<Longrightarrow> ok_result d"
  by (auto simp: resolve_def ebind_def Let_def sem_resultados_def sem_match_def ok_not_found
        split: if_splits sum.splits option.splits)
     (simp add: ok_result_def result_keys_def)

lemma ok_contained: "ok_result (fst (contained (consultar L W tr termo ref)))"
  by (auto simp: contained_def consultar_found erro_def ok_not_found split: sum.splits dest: ok_resolve)

lemma snd_contained [simp]: "snd (contained r) = snd r"
  by (simp add: contained_def)

lemma ok_result_nonempty: "ok_result d \<Longrightarrow> d \<noteq> []"
  by (auto simp: ok_result_def result_keys_def)

lemma ok_result_form:
  assumes "ok_result d"
  obtains a b c e where
    "d = [(k_Preco, JStr a), (k_Link, JStr b), (k_Classificacao, JStr c), (k_Observacao, JStr e)]"
proof -
  from assms obtain x1 x2 x3 x4 where d: "d = [x1, x2, x3, x4]"
    by (auto simp: ok_result_def result_keys_def map_eq_Cons_conv)
  with assms have k: "fst x1 = k_Preco" "fst x2 = k_Link" "fst x3 = k_Classificacao" "fst x4 = k_Observacao"
    and s: "is_str (snd x1)" "is_str (snd x2)" "is_str (snd x3)" "is_str (snd x4)"
    by (auto simp: ok_result_def result_keys_def)
  from s obtain a b c e where "snd x1 = JStr a" "snd x2 = JStr b" "snd x3 = JStr c" "snd x4 = JStr e"
    by (metis is_str.elims(2))
  with k d have "d = [(k_Preco, JStr a), (k_Link, JStr b), (k_Classificacao, JStr c), (k_Observacao, JStr e)]"
    by (metis prod.collapse)
  then show thesis by (rule that)
qed

lemma dict_merge_ok:
  assumes "ok_result d"
  shows "dict_merge [(k_EAN, x), (k_NOME, y)] d = [(k_EAN, x), (k_NOME, y)] @ d"
proof -
  from assms obtain a b c e where
    "d = [(k_Preco, JStr a), (k_Link, JStr b), (k_Classificacao, JStr c), (k_Observacao, JStr e)]"
    by (rule ok_result_form)
  then show ?thesis
    using keys_neq by (simp add: dict_merge_def)
qed

text \<open>
  The \<open>dados\<close> of a row that is not empty, and the trace before the pause: the part of
  the loop body between the test for an empty row and the \<open>append\<close>.
\<close>

definition dados_linha ::
  "pylib \<Rightarrow> catalog \<Rightarrow> event list \<Rightarrow> pystr \<Rightarrow> pystr \<Rightarrow> dict \<times> event list" where
  "dados_linha L W tr ean nome =
     (let r1 = (if ean \<noteq> []
                then contained (consultar L W tr ean (if nome \<noteq> [] then nome else ean))
                else ([], tr))
      in if fst r1 = [] \<or> map_of (fst r1) k_Preco = Some (JStr nao_encontrado)
         then (if nome \<noteq> [] then contained (consultar L W (snd r1) nome nome)
               else (if fst r1 = [] then sem_resultados else fst r1, snd r1))
         else r1)"

lemma ok_dados_linha: "ok_result (fst (dados_linha L W tr ean nome))"
  by (auto simp: dados_linha_def Let_def ok_contained sem_resultados_def ok_not_found)

lemma processar_linha_eq:
  "processar_linha L W tr cols row =
     (let ean = limpa L (row_get L cols row k_EAN (Some []));
          nome = limpa L (row_get L cols row k_NOME (Some []))
      in if ean = [] \<and> nome = [] then (linha_vazia [] [], tr)
         else ([(k_EAN, JStr ean), (k_NOME, JStr (if nome \<noteq> [] then nome else ean))]
                 @ fst (dados_linha L W tr ean nome),
               snd (dados_linha L W tr ean nome) @ [Sleep]))"
proof -
  define ean where "ean = limpa L (row_get L cols row k_EAN (Some []))"
  define nome where "nome = limpa L (row_get L cols row k_NOME (Some []))"
  have raw: "processar_linha L W tr cols row =
     (if ean = [] \<and> nome = [] then (linha_vazia ean nome, tr)
      else (dict_merge [(k_EAN, JStr ean), (k_NOME, JStr (if nome \<noteq> [] then nome else ean))]
              (fst (dados_linha L W tr ean nome)),
            snd (dados_linha L W tr ean nome) @ [Sleep]))"
    unfolding processar_linha_def dados_linha_def Let_def split_def ean_def [symmetric]
      nome_def [symmetric]
    by (cases "ean = []"; cases "nome = []"; simp)
  show ?thesis
    unfolding Let_def ean_def [symmetric] nome_def [symmetric] raw
    by (simp add: dict_merge_ok [OF ok_dados_linha])
qed

lemma length_iterrows: "length (fst (iterrows L W tr cols rs)) = length rs"
  by (induction rs arbitrary: tr) (simp_all add: split_def Let_def)

lemma iterrows_append:
  "iterrows L W tr cols (rs @ rs') =
     (fst (iterrows L W tr cols rs) @ fst (iterrows L W (snd (iterrows L W tr cols rs)) cols rs'),
      snd (iterrows L W (snd (iterrows L W tr cols rs)) cols rs'))"
  by (induction rs arbitrary: tr) (simp_all add: split_def Let_def)

lemma iterrows_nth:
  assumes "i < length rs"
  shows "fst (iterrows L W tr cols rs) ! i
           = fst (processar_linha L W (snd (iterrows L W tr cols (take i rs))) cols (rs ! i))"
proof -
  have "rs = take i rs @ (rs ! i) # drop (Suc i) rs"
    using assms by (simp add: id_take_nth_drop)
  then have "fst (iterrows L W tr cols rs)
      = fst (iterrows L W tr cols (take i rs @ (rs ! i) # drop (Suc i) rs))" by simp
  also have "\<dots> ! i = fst (processar_linha L W (snd (iterrows L W tr cols (take i rs))) cols (rs ! i))"
    using assms
    by (simp add: iterrows_append nth_append length_iterrows split_def Let_def)
  finally show ?thesis .
qed


section \<open>No candidates\<close>

text \<open>A catalogue that answers every request with an empty list.\<close>

definition sem_produtos :: catalog where
  "sem_produtos = (\<lambda>tr url. Inr (JList []))"

lemma search_sem_produtos:
  "attempt (fst (search_term sem_produtos tr t a b)) = JList []"
  "attempt (fst (search_ean sem_produtos tr t)) = JList []"
  by (simp_all add: search_term_def search_ean_def sem_produtos_def attempt_def split: sum.splits)

lemma found_sem_produtos: "fst (found L sem_produtos tr t) = JList []"
  by (simp add: found_def Let_def search_sem_produtos)

lemma consultar_sem_produtos: "fst (consultar L sem_produtos tr termo ref) = Inr sem_resultados"
  by (simp add: consultar_found found_sem_produtos resolve_def)

lemma fst_found_empty:
  assumes "no_candidates (fst (search_term W tr t 0 19))"
    and "str_isdigit L t \<and> 8 \<le> length t
           \<longrightarrow> no_candidates (fst (search_ean W (tr @ [SearchTerm t]) t))"
    and "term_simplify L t \<noteq> t \<longrightarrow>
           no_candidates (fst (search_term W
             (tr @ [SearchTerm t] @ (if str_isdigit L t \<and> 8 \<le> length t then [SearchEan t] else []))
             (term_simplify L t) 0 19))"
  shows "\<not> truthy (fst (found L W tr t))"
  using assms by (auto simp: found_def Let_def no_candidates_attempt)

text \<open>
  C5. When every search that \<open>consultar\<close> makes yields no candidates (the search by
  term, the search by code if the term is a code, the search by the simplified term if
  it differs), \<open>consultar\<close> returns, without raising, the result with
  \<open>Produto n\<atilde>o encontrado\<close>, an empty link, the dash and \<open>Sem resultados\<close>.
\<close>

theorem consultar_sem_resultados:
  assumes "let t = strip L termo;
               r1 = fst (search_term W tr t 0 19);
               by_code = (str_isdigit L t \<and> 8 \<le> length t);
               r2 = fst (search_ean W (tr @ [SearchTerm t]) t);
               t2 = term_simplify L t;
               r3 = fst (search_term W (tr @ [SearchTerm t] @ (if by_code then [SearchEan t] else []))
                          t2 0 19)
           in no_candidates r1 \<and> (by_code \<longrightarrow> no_candidates r2) \<and> (t2 \<noteq> t \<longrightarrow> no_candidates r3)"
  shows "fst (consultar L W tr termo nome_ref) =
           Inr [(k_Preco, JStr nao_encontrado), (k_Link, JStr []), (k_Classificacao, JStr travessao),
                (k_Observacao, JStr (ascii ''Sem resultados''))]"
proof -
  have "\<not> truthy (fst (found L W tr (strip L termo)))"
    using assms by (intro fst_found_empty) (simp_all add: Let_def)
  then show ?thesis
    by (simp add: consultar_found resolve_def sem_resultados_def not_found_def)
qed

theorem consultar_sem_resultados_witness:
  "fst (consultar runtime0 sem_produtos [] (ascii ''a'') []) =
     Inr [(k_Preco, JStr nao_encontrado), (k_Link, JStr []), (k_Classificacao, JStr travessao),
          (k_Observacao, JStr (ascii ''Sem resultados''))]"
  by (rule consultar_sem_resultados)
     (simp add: Let_def no_candidates_attempt search_sem_produtos)

text \<open>
  C6. Every result has exactly the four keys Preco, Link, Classificacao and Observacao,
  each with a string: what \<open>consultar\<close> returns on any of its paths, what the batch
  keeps when \<open>consultar\<close> raises, and the four result fields of every row that the
  batch produces, the empty row included.
\<close>

theorem results_shape:
  "(fst (consultar L W tr termo nome_ref) = Inr d \<longrightarrow> ok_result d)
   \<and> ok_result (fst (contained (consultar L W tr termo nome_ref)))
   \<and> (let r = fst (processar_linha L W tr cols row)
       in map fst r = out_cols \<and> list_all is_str (map snd r) \<and> ok_result (drop 2 r))"
proof -
  have a: "fst (consultar L W tr termo nome_ref) = Inr d \<longrightarrow> ok_result d"
    by (auto simp: consultar_found dest: ok_resolve)
  have c: "map fst r = out_cols \<and> list_all is_str (map snd r) \<and> ok_result (drop 2 r)"
    if "r = fst (processar_linha L W tr cols row)" for r
  proof (cases "limpa L (row_get L cols row k_EAN (Some [])) = []
                \<and> limpa L (row_get L cols row k_NOME (Some [])) = []")
    case True
    then show ?thesis
      using that
      by (simp add: processar_linha_eq linha_vazia_def out_cols_def ok_result_def result_keys_def)
  next
    case False
    define dd where "dd = fst (dados_linha L W tr (limpa L (row_get L cols row k_EAN (Some [])))
                                 (limpa L (row_get L cols row k_NOME (Some []))))"
    have "ok_result dd" unfolding dd_def by (rule ok_dados_linha)
    then show ?thesis
      using that False
      by (auto simp: processar_linha_eq Let_def dd_def [symmetric] ok_result_def out_cols_def
            result_keys_def)
  qed
  show ?thesis
    using a c ok_contained by (simp add: Let_def)
qed

theorem results_shape_witness:
  "fst (consultar runtime0 sem_produtos [] (ascii ''a'') []) = Inr sem_resultados
   \<and> ok_result sem_resultados"
  using results_shape [of runtime0 sem_produtos "[]" "ascii ''a''" "[]" sem_resultados]
  by (simp add: consultar_sem_produtos)


end
